theory Spec2Isabelle
  imports Main
begin

section \<open>The Taboo game session of \<^verbatim>\<open>app.py\<close>\<close>

text \<open>
  The Flask application keeps one process-wide dictionary \<^verbatim>\<open>GAME\<close> and, per browser, a
  signed cookie \<^verbatim>\<open>session\<close>. Every route handler is modelled as a function that takes the
  dictionary, the caller's cookie and the form fields of the request, and returns the
  dictionary and the cookie as the handler leaves them together with what the handler did
  last: the response it returned or the exception it raised.

  Strings are byte strings restricted to ASCII. What the handlers take from outside the
  process is a parameter: the identifier drawn by \<^verbatim>\<open>uuid4\<close>, the permutation applied by
  \<^verbatim>\<open>random.shuffle\<close>, and the parsed content of \<^verbatim>\<open>cards.json\<close>.
\<close>

subsection \<open>Data\<close>

record card =
  word :: string
  taboo :: "string list"

text \<open>A player is the dictionary \<^verbatim>\<open>{"id": ..., "name": ..., "team": ...}\<close> built by \<^verbatim>\<open>join\<close>.\<close>

record player =
  p_id :: string
  p_name :: string
  p_team :: string

record game_state =
  players :: "player list"
  deck :: "string list"
  cards :: "card list"
  scores :: "string \<rightharpoonup> int"
  passes :: int
  turn_index :: int
  time_limit :: int
  started :: bool

text \<open>The two keys of the Flask cookie that the handlers read and write.\<close>

record flask_session =
  player_id :: "string option"
  error :: "string option"

definition DEFAULT_TIME_LIMIT :: int where
  "DEFAULT_TIME_LIMIT = 60"

definition GAME :: game_state where
  "GAME = \<lparr>players = [], deck = [], cards = [],
            scores = [''red'' \<mapsto> 0, ''blue'' \<mapsto> 0],
            passes = 0, turn_index = 0, time_limit = DEFAULT_TIME_LIMIT, started = False\<rparr>"

text \<open>An entry of \<^verbatim>\<open>cards.json\<close> after \<^verbatim>\<open>entry.get\<close> has applied its defaults and
  \<^verbatim>\<open>str\<close> has been taken of the word and of every item.\<close>

record raw_entry =
  raw_word :: string
  raw_taboo :: "string list"

datatype endpoint = Index | Game

text \<open>The keyword arguments that \<^verbatim>\<open>game\<close> hands to \<^verbatim>\<open>render_template("game.html", ...)\<close>.\<close>

record game_ctx =
  ctx_card :: "card option"
  ctx_scores :: "string \<rightharpoonup> int"
  ctx_passes :: int
  ctx_time_limit :: int
  ctx_current_player :: player
  ctx_opposite_team :: string
  ctx_can_view :: bool
  ctx_current_user :: "player option"

datatype response = Redirect endpoint | Render_game game_ctx

datatype py_exception = ValueError

datatype outcome = Returned response | Raised py_exception

type_synonym handled = "game_state \<times> flask_session \<times> outcome"

abbreviation game_of :: "handled \<Rightarrow> game_state" where
  "game_of r \<equiv> fst r"

abbreviation session_of :: "handled \<Rightarrow> flask_session" where
  "session_of r \<equiv> fst (snd r)"

abbreviation outcome_of :: "handled \<Rightarrow> outcome" where
  "outcome_of r \<equiv> snd (snd r)"

subsection \<open>Python's string functions, on ASCII\<close>

definition isspace :: "char \<Rightarrow> bool" where
  "isspace c = (c \<in> set [CHR 0x09, CHR 0x0A, CHR 0x0B, CHR 0x0C, CHR 0x0D,
                          CHR 0x1C, CHR 0x1D, CHR 0x1E, CHR 0x1F, CHR '' ''])"

definition strip :: "string \<Rightarrow> string" where
  "strip s = rev (dropWhile isspace (rev (dropWhile isspace s)))"

definition lower_char :: "char \<Rightarrow> char" where
  "lower_char c =
     (case map_of (zip ''ABCDEFGHIJKLMNOPQRSTUVWXYZ'' ''abcdefghijklmnopqrstuvwxyz'') c of
        None \<Rightarrow> c
      | Some d \<Rightarrow> d)"

definition lower :: "string \<Rightarrow> string" where
  "lower s = map lower_char s"

definition isdigit :: "char \<Rightarrow> bool" where
  "isdigit c = (c \<in> set ''0123456789'')"

definition digit_value :: "char \<Rightarrow> int" where
  "digit_value c =
     (case map_of (zip ''0123456789'' [0, 1, 2, 3, 4, 5, 6, 7, 8, 9]) c of
        None \<Rightarrow> 0
      | Some d \<Rightarrow> d)"

text \<open>Decimal digits in which single underscores may stand between two digits.\<close>

fun parse_digits :: "string \<Rightarrow> int \<Rightarrow> int option" where
  "parse_digits [] acc = None"
| "parse_digits [c] acc = (if isdigit c then Some (acc * 10 + digit_value c) else None)"
| "parse_digits (c # d # ds) acc =
     (if \<not> isdigit c then None
      else if d = CHR ''_'' then parse_digits ds (acc * 10 + digit_value c)
      else parse_digits (d # ds) (acc * 10 + digit_value c))"

text \<open>
  \<^verbatim>\<open>int(s)\<close> for an ASCII string. The whitespace that \<^verbatim>\<open>int\<close> skips before and after
  the literal is narrower than that of \<^verbatim>\<open>str.strip\<close>: tab, line feed, vertical tab,
  form feed, carriage return and space only, so the separators 0x1C to 0x1F make the literal
  invalid. One sign is allowed, and anything else than digits raises \<^verbatim>\<open>ValueError\<close>,
  here \<open>None\<close>. CPython from 3.11 on also refuses a literal of more than 4300 digits.
\<close>

definition int_isspace :: "char \<Rightarrow> bool" where
  "int_isspace c = (c \<in> set [CHR 0x09, CHR 0x0A, CHR 0x0B, CHR 0x0C, CHR 0x0D, CHR '' ''])"

definition int_max_str_digits :: nat where
  "int_max_str_digits = 4300"

definition py_int :: "string \<Rightarrow> int option" where
  "py_int s =
     (let t = rev (dropWhile int_isspace (rev (dropWhile int_isspace s)));
          negative = (t \<noteq> [] \<and> hd t = CHR ''-'');
          body = (if t \<noteq> [] \<and> (hd t = CHR ''-'' \<or> hd t = CHR ''+'') then tl t else t)
      in if int_max_str_digits < length (filter isdigit body) then None
         else map_option (\<lambda>n. if negative then - n else n) (parse_digits body 0))"

text \<open>\<^verbatim>\<open>request.form.get(key, default)\<close> for a field that may be absent from the form.\<close>

definition form_get :: "'a option \<Rightarrow> 'a \<Rightarrow> 'a" where
  "form_get field dflt = (case field of None \<Rightarrow> dflt | Some v \<Rightarrow> v)"

subsection \<open>Helpers of the handlers\<close>

definition clean_entry :: "raw_entry \<Rightarrow> card option" where
  "clean_entry entry =
     (let w = strip (raw_word entry);
          t = filter (\<lambda>item. item \<noteq> []) (map strip (raw_taboo entry))
      in if w \<noteq> [] \<and> t \<noteq> [] then Some \<lparr>word = w, taboo = t\<rparr> else None)"

definition load_cards :: "raw_entry list \<Rightarrow> card list" where
  "load_cards raw = List.map_filter clean_entry raw"

definition get_current_user :: "game_state \<Rightarrow> flask_session \<Rightarrow> player option" where
  "get_current_user g s =
     (case player_id s of
        None \<Rightarrow> None
      | Some i \<Rightarrow> if i = [] then None else find (\<lambda>p. p_id p = i) (players g))"

text \<open>
  \<^verbatim>\<open>players[GAME["turn_index"] % len(players)]\<close>, which three handlers compute after they
  have checked that the roster is not empty.
\<close>

definition current_player :: "game_state \<Rightarrow> player" where
  "current_player g = players g ! nat (turn_index g mod int (length (players g)))"

definition opposite_of :: "string \<Rightarrow> string" where
  "opposite_of t = (if t = ''red'' then ''blue'' else ''red'')"

text \<open>\<^verbatim>\<open>scores.get(team, 0)\<close>\<close>

definition get_score :: "(string \<rightharpoonup> int) \<Rightarrow> string \<Rightarrow> int" where
  "get_score sc t = (case sc t of None \<Rightarrow> 0 | Some n \<Rightarrow> n)"

subsection \<open>The route handlers\<close>

text \<open>
  The handler \<^verbatim>\<open>index\<close> reads the dictionary and removes the error message from the
  cookie; it assigns nothing to the dictionary and is left out. An exception that leaves a
  handler is answered by Flask with status 500; the assignments made before it stay.
\<close>

definition join :: "game_state \<Rightarrow> flask_session \<Rightarrow> string option \<Rightarrow> string option \<Rightarrow> string \<Rightarrow> handled" where
  "join g s form_name form_team uuid =
     (if started g then
        (g, s\<lparr>error := Some ''Round already started. End round to join.''\<rparr>,
         Returned (Redirect Index))
      else
        let name = strip (form_get form_name []);
            team = lower (strip (form_get form_team []))
        in if name = [] \<or> team \<notin> {''red'', ''blue''} then
             (g, s\<lparr>error := Some ''Enter a player name and choose a team.''\<rparr>,
              Returned (Redirect Index))
           else
             let p = \<lparr>p_id = uuid, p_name = name, p_team = team\<rparr>
             in (g\<lparr>players := players g @ [p]\<rparr>, s\<lparr>player_id := Some (p_id p)\<rparr>,
                 Returned (Redirect Index)))"

definition start_game ::
  "game_state \<Rightarrow> flask_session \<Rightarrow> raw_entry list \<Rightarrow> (string list \<Rightarrow> string list) \<Rightarrow> string option \<Rightarrow> handled" where
  "start_game g s raw shuffle form_time_limit =
     (if length (players g) < 2 then
        (g, s\<lparr>error := Some ''Add at least two players to start.''\<rparr>,
         Returned (Redirect Index))
      else if \<not> {''red'', ''blue''} \<subseteq> set (map p_team (players g)) then
        (g, s\<lparr>error := Some ''Add at least one player to each team.''\<rparr>,
         Returned (Redirect Index))
      else
        let cs = load_cards raw
        in if cs = [] then
             (g, s\<lparr>error := Some ''No cards available in cards.json.''\<rparr>,
              Returned (Redirect Index))
           else
             let g1 = g\<lparr>deck := shuffle (map word cs), cards := cs,
                        scores := [''red'' \<mapsto> 0, ''blue'' \<mapsto> 0],
                        passes := 0, turn_index := 0\<rparr>
             in case (case form_time_limit of
                        None \<Rightarrow> Some DEFAULT_TIME_LIMIT
                      | Some v \<Rightarrow> py_int v) of
                  None \<Rightarrow> (g1, s, Raised ValueError)
                | Some n \<Rightarrow>
                    (g1\<lparr>time_limit := n, started := True\<rparr>, s, Returned (Redirect Game)))"

definition game :: "game_state \<Rightarrow> flask_session \<Rightarrow> handled" where
  "game g s =
     (if \<not> started g then (g, s, Returned (Redirect Index))
      else if players g = [] then (g, s, Returned (Redirect Index))
      else case deck g of
        [] \<Rightarrow> (g, s, Returned (Redirect Index))
      | current_word # _ \<Rightarrow>
          let cur = current_player g;
              opposite_team = opposite_of (p_team cur);
              current_user = get_current_user g s;
              can_view = (case current_user of
                            None \<Rightarrow> False
                          | Some u \<Rightarrow> p_id u = p_id cur \<or> p_team u = opposite_team)
          in (g, s, Returned (Render_game
                \<lparr>ctx_card = find (\<lambda>c. word c = current_word) (cards g),
                 ctx_scores = scores g,
                 ctx_passes = passes g,
                 ctx_time_limit = time_limit g,
                 ctx_current_player = cur,
                 ctx_opposite_team = opposite_team,
                 ctx_can_view = can_view,
                 ctx_current_user = current_user\<rparr>)))"

definition action :: "game_state \<Rightarrow> flask_session \<Rightarrow> string option \<Rightarrow> handled" where
  "action g s action_type =
     (if players g = [] then (g, s, Returned (Redirect Index))
      else case deck g of
        [] \<Rightarrow> (g, s, Returned (Redirect Index))
      | current # rest \<Rightarrow>
          if player_id s \<noteq> Some (p_id (current_player g)) then
            (g, s, Returned (Redirect Game))
          else
            let team = p_team (current_player g);
                sc = scores g;
                g1 = (if action_type = Some ''correct'' then
                        g\<lparr>deck := rest, scores := sc(team \<mapsto> get_score sc team + 1)\<rparr>
                      else if action_type = Some ''taboo'' then
                        g\<lparr>deck := rest, scores := sc(team \<mapsto> max 0 (get_score sc team - 1))\<rparr>
                      else if action_type = Some ''pass'' then
                        g\<lparr>deck := rest @ [current], passes := passes g + 1\<rparr>
                      else g\<lparr>deck := rest\<rparr>)
            in (g1, s, Returned (Redirect (if deck g1 = [] then Index else Game))))"

definition next_turn :: "game_state \<Rightarrow> flask_session \<Rightarrow> handled" where
  "next_turn g s =
     (if players g = [] then (g, s, Returned (Redirect Index))
      else if player_id s \<noteq> Some (p_id (current_player g)) then
        (g, s, Returned (Redirect Game))
      else
        (g\<lparr>turn_index := (turn_index g + 1) mod int (length (players g))\<rparr>, s,
         Returned (Redirect Game)))"

definition reset :: "game_state \<Rightarrow> flask_session \<Rightarrow> handled" where
  "reset g s =
     (g\<lparr>players := [], deck := [], cards := [],
        scores := [''red'' \<mapsto> 0, ''blue'' \<mapsto> 0],
        passes := 0, turn_index := 0, time_limit := DEFAULT_TIME_LIMIT, started := False\<rparr>,
      \<lparr>player_id = None, error = None\<rparr>,
      Returned (Redirect Index))"

subsection \<open>The page shown for a round\<close>

text \<open>
  Modelled from the spec: the template \<^verbatim>\<open>game.html\<close>, which turns the arguments of
  \<^verbatim>\<open>render_template\<close> into the page, is not among the sources. The specification says of
  the view: "Returns the current word only when \<^verbatim>\<open>canSeeWord\<close> is true; otherwise returns a
  redacted view (scores, pass count, active player, time limit remain visible)."
\<close>

record game_page =
  page_word :: "string option"
  page_scores :: "string \<rightharpoonup> int"
  page_passes :: int
  page_active_player :: player
  page_time_limit :: int

definition game_html :: "game_ctx \<Rightarrow> game_page" where
  "game_html ctx =
     \<lparr>page_word = (if ctx_can_view ctx then map_option word (ctx_card ctx) else None),
      page_scores = ctx_scores ctx,
      page_passes = ctx_passes ctx,
      page_active_player = ctx_current_player ctx,
      page_time_limit = ctx_time_limit ctx\<rparr>"

subsection \<open>Reachable states of the dictionary\<close>

text \<open>
  The dictionary starts as the literal \<^verbatim>\<open>GAME\<close> and changes only through the handlers,
  called with any cookie and any form. The handlers \<^verbatim>\<open>index\<close> and \<^verbatim>\<open>game\<close> never assign
  to it. A call of \<^verbatim>\<open>start_game\<close> that raises leaves behind what it had assigned before,
  which \<open>game_of\<close> of the model returns too.
\<close>

inductive reachable :: "game_state \<Rightarrow> bool" where
  reachable_init: "reachable GAME"
| reachable_join: "reachable g \<Longrightarrow> reachable (game_of (join g s form_name form_team uuid))"
| reachable_start_game:
    "reachable g \<Longrightarrow> reachable (game_of (start_game g s raw shuffle form_time_limit))"
| reachable_action: "reachable g \<Longrightarrow> reachable (game_of (action g s action_type))"
| reachable_next_turn: "reachable g \<Longrightarrow> reachable (game_of (next_turn g s))"
| reachable_reset: "reachable g \<Longrightarrow> reachable (game_of (reset g s))"

subsection \<open>A round of three players, used to run the handlers\<close>

definition no_cookie :: flask_session where
  "no_cookie = \<lparr>player_id = None, error = None\<rparr>"

definition alice_joins :: handled where
  "alice_joins = join GAME no_cookie (Some ''Alice'') (Some ''red'')
                   ''a3f1c2d4e5b60718293a4b5c6d7e8f90''"

definition bob_joins :: handled where
  "bob_joins = join (game_of alice_joins) no_cookie (Some ''Bob'') (Some '' Blue'')
                 ''b7e2d1c0f9a8172635443322110ffeed''"

definition carol_joins :: handled where
  "carol_joins = join (game_of bob_joins) no_cookie (Some ''Carol'') (Some ''RED'')
                   ''c0ffee00c0ffee00c0ffee00c0ffee00''"

definition alice :: flask_session where
  "alice = session_of alice_joins"

definition bob :: flask_session where
  "bob = session_of bob_joins"

definition carol :: flask_session where
  "carol = session_of carol_joins"

definition lobby :: game_state where
  "lobby = game_of carol_joins"

definition cards_json :: "raw_entry list" where
  "cards_json = [\<lparr>raw_word = ''apple'', raw_taboo = [''fruit'', ''tree'']\<rparr>,
                 \<lparr>raw_word = ''river'', raw_taboo = [''water'', ''bank'']\<rparr>]"

text \<open>One of the permutations \<^verbatim>\<open>random.shuffle\<close> may apply: the one that moves nothing.\<close>

definition same_order :: "string list \<Rightarrow> string list" where
  "same_order d = d"

definition round_started :: game_state where
  "round_started = game_of (start_game lobby alice cards_json same_order (Some ''60''))"

definition one_card_left :: game_state where
  "one_card_left = game_of (action round_started alice (Some ''correct''))"

subsection \<open>What every reachable scoreboard satisfies\<close>

definition scores_ok :: "game_state \<Rightarrow> bool" where
  "scores_ok g = (scores g ''red'' \<noteq> None \<and> scores g ''blue'' \<noteq> None \<and>
                  (\<forall>t n. scores g t = Some n \<longrightarrow> 0 \<le> n))"

section \<open>Properties of the handlers\<close>

subsection \<open>Calls of \<^verbatim>\<open>action\<close> and \<^verbatim>\<open>next_turn\<close> that are turned away, and calls that are not\<close>

lemma action_rejected:
  "players g = [] \<or> deck g = [] \<or> player_id s \<noteq> Some (p_id (current_player g)) \<Longrightarrow>
   game_of (action g s action_type) = g"
  by (auto simp: action_def split: list.splits)

lemma next_turn_rejected:
  "players g = [] \<or> player_id s \<noteq> Some (p_id (current_player g)) \<Longrightarrow>
   game_of (next_turn g s) = g"
  by (auto simp: next_turn_def)

lemma action_accepted:
  assumes "players g \<noteq> []" "deck g = current # rest"
    "player_id s = Some (p_id (current_player g))"
  shows "game_of (action g s action_type) =
     (if action_type = Some ''correct'' then
        g\<lparr>deck := rest, scores := (scores g)(p_team (current_player g) \<mapsto>
              get_score (scores g) (p_team (current_player g)) + 1)\<rparr>
      else if action_type = Some ''taboo'' then
        g\<lparr>deck := rest, scores := (scores g)(p_team (current_player g) \<mapsto>
              max 0 (get_score (scores g) (p_team (current_player g)) - 1))\<rparr>
      else if action_type = Some ''pass'' then
        g\<lparr>deck := rest @ [current], passes := passes g + 1\<rparr>
      else g\<lparr>deck := rest\<rparr>)"
  using assms by (simp add: action_def Let_def)

subsection \<open>No score is negative in a reachable state\<close>

lemma scores_ok_action: "scores_ok g \<Longrightarrow> scores_ok (game_of (action g s action_type))"
proof (cases "players g = [] \<or> deck g = [] \<or> player_id s \<noteq> Some (p_id (current_player g))")
  case True
  assume "scores_ok g"
  with action_rejected [OF True] show ?thesis by simp
next
  case False
  assume ok: "scores_ok g"
  from False obtain current rest where d: "deck g = current # rest"
    by (cases "deck g") auto
  from False have p: "players g \<noteq> []" and i: "player_id s = Some (p_id (current_player g))"
    by auto
  have "0 \<le> get_score (scores g) t" for t
    using ok by (auto simp: scores_ok_def get_score_def split: option.splits)
  then show ?thesis
    using ok by (auto simp: action_accepted [OF p d i] scores_ok_def)
qed

lemma scores_ok_join: "scores_ok g \<Longrightarrow> scores_ok (game_of (join g s form_name form_team uuid))"
  by (simp add: join_def Let_def scores_ok_def)

lemma scores_ok_start_game:
  "scores_ok g \<Longrightarrow> scores_ok (game_of (start_game g s raw shuffle form_time_limit))"
  by (auto simp: start_game_def Let_def scores_ok_def split: option.splits)

lemma scores_ok_next_turn: "scores_ok g \<Longrightarrow> scores_ok (game_of (next_turn g s))"
  by (simp add: next_turn_def scores_ok_def)

lemma scores_ok_reset: "scores_ok (game_of (reset g s))"
  by (simp add: reset_def scores_ok_def)

lemma reachable_scores_ok: "reachable g \<Longrightarrow> scores_ok g"
proof (induction rule: reachable.induct)
  case reachable_init
  show ?case by (simp add: GAME_def scores_ok_def)
qed (simp_all add: scores_ok_action scores_ok_join scores_ok_start_game scores_ok_next_turn
      scores_ok_reset)


subsection \<open>The example round, evaluated\<close>

lemmas run_defs = join_def start_game_def action_def next_turn_def game_def reset_def
  strip_def lower_def lower_char_def isspace_def int_isspace_def form_get_def py_int_def
  isdigit_def
  digit_value_def int_max_str_digits_def load_cards_def clean_entry_def List.map_filter_def
  current_player_def get_score_def opposite_of_def get_current_user_def
  DEFAULT_TIME_LIMIT_def GAME_def no_cookie_def Let_def

lemma alice_eq: "alice = \<lparr>player_id = Some ''a3f1c2d4e5b60718293a4b5c6d7e8f90'', error = None\<rparr>"
  by (simp add: alice_def alice_joins_def run_defs)

lemma alice_joins_game:
  "game_of alice_joins = GAME\<lparr>players :=
     [\<lparr>p_id = ''a3f1c2d4e5b60718293a4b5c6d7e8f90'', p_name = ''Alice'', p_team = ''red''\<rparr>]\<rparr>"
  by (simp add: alice_joins_def run_defs)

lemma bob_joins_game:
  "game_of bob_joins = GAME\<lparr>players :=
     [\<lparr>p_id = ''a3f1c2d4e5b60718293a4b5c6d7e8f90'', p_name = ''Alice'', p_team = ''red''\<rparr>,
      \<lparr>p_id = ''b7e2d1c0f9a8172635443322110ffeed'', p_name = ''Bob'', p_team = ''blue''\<rparr>]\<rparr>"
  by (simp add: bob_joins_def alice_joins_game) (simp add: run_defs)

lemma bob_eq: "bob = \<lparr>player_id = Some ''b7e2d1c0f9a8172635443322110ffeed'', error = None\<rparr>"
  by (simp add: bob_def bob_joins_def alice_joins_game) (simp add: run_defs)

lemma carol_eq: "carol = \<lparr>player_id = Some ''c0ffee00c0ffee00c0ffee00c0ffee00'', error = None\<rparr>"
  by (simp add: carol_def carol_joins_def bob_joins_game) (simp add: run_defs)

lemma lobby_eq:
  "lobby = \<lparr>players =
     [\<lparr>p_id = ''a3f1c2d4e5b60718293a4b5c6d7e8f90'', p_name = ''Alice'', p_team = ''red''\<rparr>,
      \<lparr>p_id = ''b7e2d1c0f9a8172635443322110ffeed'', p_name = ''Bob'', p_team = ''blue''\<rparr>,
      \<lparr>p_id = ''c0ffee00c0ffee00c0ffee00c0ffee00'', p_name = ''Carol'', p_team = ''red''\<rparr>],
     deck = [], cards = [], scores = [''red'' \<mapsto> 0, ''blue'' \<mapsto> 0],
     passes = 0, turn_index = 0, time_limit = 60, started = False\<rparr>"
  by (simp add: lobby_def carol_joins_def bob_joins_game) (simp add: run_defs)

lemma load_cards_json:
  "load_cards cards_json = [\<lparr>word = ''apple'', taboo = [''fruit'', ''tree'']\<rparr>,
                            \<lparr>word = ''river'', taboo = [''water'', ''bank'']\<rparr>]"
  by (simp add: cards_json_def run_defs)

lemma py_int_60: "py_int ''60'' = Some 60"
  by (simp add: run_defs)

lemma py_int_abc: "py_int ''abc'' = None"
  by (simp add: run_defs)

lemma round_started_eq:
  "round_started = \<lparr>players =
     [\<lparr>p_id = ''a3f1c2d4e5b60718293a4b5c6d7e8f90'', p_name = ''Alice'', p_team = ''red''\<rparr>,
      \<lparr>p_id = ''b7e2d1c0f9a8172635443322110ffeed'', p_name = ''Bob'', p_team = ''blue''\<rparr>,
      \<lparr>p_id = ''c0ffee00c0ffee00c0ffee00c0ffee00'', p_name = ''Carol'', p_team = ''red''\<rparr>],
     deck = [''apple'', ''river''],
     cards = [\<lparr>word = ''apple'', taboo = [''fruit'', ''tree'']\<rparr>,
              \<lparr>word = ''river'', taboo = [''water'', ''bank'']\<rparr>],
     scores = [''red'' \<mapsto> 0, ''blue'' \<mapsto> 0],
     passes = 0, turn_index = 0, time_limit = 60, started = True\<rparr>"
  by (simp add: round_started_def start_game_def lobby_eq load_cards_json py_int_60
        same_order_def)

lemma current_player_round_started:
  "current_player round_started =
     \<lparr>p_id = ''a3f1c2d4e5b60718293a4b5c6d7e8f90'', p_name = ''Alice'', p_team = ''red''\<rparr>"
  by (simp add: round_started_eq current_player_def)

lemma one_card_left_eq:
  "one_card_left = \<lparr>players =
     [\<lparr>p_id = ''a3f1c2d4e5b60718293a4b5c6d7e8f90'', p_name = ''Alice'', p_team = ''red''\<rparr>,
      \<lparr>p_id = ''b7e2d1c0f9a8172635443322110ffeed'', p_name = ''Bob'', p_team = ''blue''\<rparr>,
      \<lparr>p_id = ''c0ffee00c0ffee00c0ffee00c0ffee00'', p_name = ''Carol'', p_team = ''red''\<rparr>],
     deck = [''river''],
     cards = [\<lparr>word = ''apple'', taboo = [''fruit'', ''tree'']\<rparr>,
              \<lparr>word = ''river'', taboo = [''water'', ''bank'']\<rparr>],
     scores = [''blue'' \<mapsto> 0, ''red'' \<mapsto> 1],
     passes = 0, turn_index = 0, time_limit = 60, started = True\<rparr>"
  by (simp add: one_card_left_def action_def alice_eq round_started_eq current_player_def
        get_score_def Let_def)

lemma current_player_one_card_left:
  "current_player one_card_left =
     \<lparr>p_id = ''a3f1c2d4e5b60718293a4b5c6d7e8f90'', p_name = ''Alice'', p_team = ''red''\<rparr>"
  by (simp add: one_card_left_eq current_player_def)

lemma reachable_lobby: "reachable lobby"
  unfolding lobby_def carol_joins_def bob_joins_def alice_joins_def
  by (intro reachable.intros)

lemma reachable_round_started: "reachable round_started"
  unfolding round_started_def by (intro reachable.intros reachable_lobby)

lemma reachable_one_card_left: "reachable one_card_left"
  unfolding one_card_left_def by (intro reachable.intros reachable_round_started)

subsection \<open>What \<^verbatim>\<open>start_game\<close> does on each of its paths\<close>

lemma start_game_too_few:
  "length (players g) < 2 \<Longrightarrow>
   start_game g s raw shuffle form_time_limit =
     (g, s\<lparr>error := Some ''Add at least two players to start.''\<rparr>, Returned (Redirect Index))"
  by (simp add: start_game_def)

lemma start_game_team_missing:
  "\<not> length (players g) < 2 \<Longrightarrow> \<not> {''red'', ''blue''} \<subseteq> set (map p_team (players g)) \<Longrightarrow>
   start_game g s raw shuffle form_time_limit =
     (g, s\<lparr>error := Some ''Add at least one player to each team.''\<rparr>,
      Returned (Redirect Index))"
  by (simp add: start_game_def)

lemma start_game_no_cards:
  "\<not> length (players g) < 2 \<Longrightarrow> {''red'', ''blue''} \<subseteq> set (map p_team (players g)) \<Longrightarrow>
   load_cards raw = [] \<Longrightarrow>
   start_game g s raw shuffle form_time_limit =
     (g, s\<lparr>error := Some ''No cards available in cards.json.''\<rparr>, Returned (Redirect Index))"
  by (simp add: start_game_def)

lemma start_game_assigns:
  "\<not> length (players g) < 2 \<Longrightarrow> {''red'', ''blue''} \<subseteq> set (map p_team (players g)) \<Longrightarrow>
   load_cards raw \<noteq> [] \<Longrightarrow>
   start_game g s raw shuffle form_time_limit =
     (case (case form_time_limit of None \<Rightarrow> Some DEFAULT_TIME_LIMIT | Some v \<Rightarrow> py_int v) of
        None \<Rightarrow>
          (g\<lparr>deck := shuffle (map word (load_cards raw)), cards := load_cards raw,
             scores := [''red'' \<mapsto> 0, ''blue'' \<mapsto> 0], passes := 0, turn_index := 0\<rparr>,
           s, Raised ValueError)
      | Some n \<Rightarrow>
          (g\<lparr>deck := shuffle (map word (load_cards raw)), cards := load_cards raw,
             scores := [''red'' \<mapsto> 0, ''blue'' \<mapsto> 0], passes := 0, turn_index := 0,
             time_limit := n, started := True\<rparr>,
           s, Returned (Redirect Game)))"
  by (simp add: start_game_def Let_def)

subsection \<open>The other paths that turn a caller away\<close>

lemma join_rejected:
  "started g \<or> strip (form_get form_name []) = [] \<or>
   lower (strip (form_get form_team [])) \<notin> {''red'', ''blue''} \<Longrightarrow>
   game_of (join g s form_name form_team uuid) = g"
  by (auto simp: join_def Let_def)

lemma start_game_rejected:
  "length (players g) < 2 \<or> \<not> {''red'', ''blue''} \<subseteq> set (map p_team (players g)) \<or>
   load_cards raw = [] \<Longrightarrow>
   game_of (start_game g s raw shuffle form_time_limit) = g"
  by (auto simp: start_game_def Let_def)

lemma game_reads_only: "game_of (game g s) = g"
  by (simp add: game_def Let_def split: list.splits)

subsection \<open>More of the example round\<close>

lemma py_int_90: "py_int ''90'' = Some 90"
  by (simp add: run_defs)

lemma py_int_1_5: "py_int ''1.5'' = None"
  by (simp add: run_defs)

lemma py_int_padded: "py_int '' +1_5  '' = Some 15"
  by (simp add: run_defs)

lemma py_int_separators: "py_int [CHR 0x1C, CHR ''7'', CHR 0x1F] = None"
  by (simp add: run_defs)

lemma one_card_left_ready:
  "\<not> length (players one_card_left) < 2"
  "{''red'', ''blue''} \<subseteq> set (map p_team (players one_card_left))"
  "load_cards cards_json \<noteq> []"
  by (simp_all add: one_card_left_eq load_cards_json)

lemma lobby_ready:
  "\<not> length (players lobby) < 2"
  "{''red'', ''blue''} \<subseteq> set (map p_team (players lobby))"
  by (simp_all add: lobby_eq)

section \<open>The claims\<close>

subsection \<open>C1: who may see the word\<close>

text \<open>
  C1. For a round in progress with a roster and a deck that are not empty, \<^verbatim>\<open>game\<close>
  renders the page with \<^verbatim>\<open>can_view\<close> true exactly when the caller's cookie names a
  registered player whose id is the active player's id or whose team is the team opposite
  to the active player's. So for a caller on the active player's own team who is not the
  active player, \<^verbatim>\<open>can_view\<close> is false, and the page made from these arguments
  (\<open>game_html\<close>, the page as the specification describes it) shows no word.
\<close>

theorem teammate_cannot_view_word:
  assumes "started g" and "players g \<noteq> []" and "deck g \<noteq> []"
  shows "case outcome_of (game g s) of
           Returned (Render_game ctx) \<Rightarrow>
             ctx_current_user ctx = get_current_user g s \<and>
             ctx_can_view ctx =
               (case get_current_user g s of
                  None \<Rightarrow> False
                | Some u \<Rightarrow> p_id u = p_id (current_player g) \<or>
                           p_team u = opposite_of (p_team (current_player g))) \<and>
             (\<forall>u. get_current_user g s = Some u \<and>
                   p_team u = p_team (current_player g) \<and>
                   p_id u \<noteq> p_id (current_player g) \<longrightarrow>
                ctx_can_view ctx = False \<and> page_word (game_html ctx) = None)
         | _ \<Rightarrow> False"
proof -
  from assms(3) obtain current_word rest where d: "deck g = current_word # rest"
    by (cases "deck g") auto
  show ?thesis
    using assms(1,2)
    by (auto simp: game_def d Let_def game_html_def opposite_of_def split: option.splits)
qed

text \<open>Carol is on the red team with Alice, who gives the clues, and is shown no word; Bob,
  of the blue team, is shown "apple".\<close>

theorem teammate_cannot_view_word_witness:
  "started round_started \<and> players round_started \<noteq> [] \<and> deck round_started \<noteq> [] \<and>
   get_current_user round_started carol =
     Some \<lparr>p_id = ''c0ffee00c0ffee00c0ffee00c0ffee00'', p_name = ''Carol'', p_team = ''red''\<rparr> \<and>
   p_team (current_player round_started) = ''red'' \<and>
   p_id (current_player round_started) = ''a3f1c2d4e5b60718293a4b5c6d7e8f90'' \<and>
   (case outcome_of (game round_started carol) of
      Returned (Render_game ctx) \<Rightarrow>
        ctx_can_view ctx = False \<and> page_word (game_html ctx) = None
    | _ \<Rightarrow> False) \<and>
   (case outcome_of (game round_started bob) of
      Returned (Render_game ctx) \<Rightarrow>
        ctx_can_view ctx = True \<and> page_word (game_html ctx) = Some ''apple''
    | _ \<Rightarrow> False)"
proof -
  have a: "started round_started" "players round_started \<noteq> []" "deck round_started \<noteq> []"
    by (simp_all add: round_started_eq)
  have u: "get_current_user round_started carol =
     Some \<lparr>p_id = ''c0ffee00c0ffee00c0ffee00c0ffee00'', p_name = ''Carol'', p_team = ''red''\<rparr>"
    by (simp add: get_current_user_def carol_eq round_started_eq)
  have b: "case outcome_of (game round_started bob) of
      Returned (Render_game ctx) \<Rightarrow>
        ctx_can_view ctx = True \<and> page_word (game_html ctx) = Some ''apple''
    | _ \<Rightarrow> False"
    by (simp add: game_def game_html_def get_current_user_def bob_eq opposite_of_def
          current_player_def round_started_eq Let_def)
  from teammate_cannot_view_word [OF a, of carol] b show ?thesis
    by (simp add: a u current_player_round_started opposite_of_def
          split: outcome.splits response.splits)
qed

subsection \<open>C2: the last word of the deck\<close>

text \<open>
  C2, as stated, fails: when the clue-giver's action empties the deck, \<^verbatim>\<open>started\<close> is not
  cleared. Alice posts "correct" on the last word of the round and the flag is still set.
\<close>

theorem exhausted_deck_clears_flag_counterexample:
  "players one_card_left \<noteq> [] \<and> deck one_card_left = [''river''] \<and>
   player_id alice = Some (p_id (current_player one_card_left)) \<and>
   deck (game_of (action one_card_left alice (Some ''correct''))) = [] \<and>
   started (game_of (action one_card_left alice (Some ''correct''))) = True"
proof -
  have p: "players one_card_left \<noteq> []" and dk: "deck one_card_left = [''river'']"
    by (simp_all add: one_card_left_eq)
  have i: "player_id alice = Some (p_id (current_player one_card_left))"
    by (simp add: alice_eq current_player_one_card_left)
  have "started one_card_left"
    by (simp add: one_card_left_eq)
  then show ?thesis
    by (simp add: p dk i action_accepted [OF p dk i])
qed

text \<open>
  C2, amended. When the clue-giver posts an action other than "pass" on a deck of one word,
  the deck is empty afterwards, the caller is sent to the index page, \<^verbatim>\<open>started\<close> keeps the
  value it had (only \<^verbatim>\<open>reset\<close> clears it), the scores are those the action computed, and
  every later call of \<^verbatim>\<open>action\<close>, by any caller and with any action, is turned away to
  the index page and changes nothing. A "pass" on a deck of one word puts the word back:
  the deck is not exhausted and the round goes on.
\<close>

theorem last_word_keeps_started_flag:
  assumes "players g \<noteq> []" and "deck g = [w]"
    and "player_id s = Some (p_id (current_player g))"
  shows "(action_type \<noteq> Some ''pass'' \<longrightarrow>
            deck (game_of (action g s action_type)) = [] \<and>
            started (game_of (action g s action_type)) = started g \<and>
            outcome_of (action g s action_type) = Returned (Redirect Index) \<and>
            scores (game_of (action g s action_type)) =
              (if action_type = Some ''correct'' then
                 (scores g)(p_team (current_player g) \<mapsto>
                    get_score (scores g) (p_team (current_player g)) + 1)
               else if action_type = Some ''taboo'' then
                 (scores g)(p_team (current_player g) \<mapsto>
                    max 0 (get_score (scores g) (p_team (current_player g)) - 1))
               else scores g) \<and>
            action (game_of (action g s action_type)) s2 action_type2 =
              (game_of (action g s action_type), s2, Returned (Redirect Index))) \<and>
         (action_type = Some ''pass'' \<longrightarrow>
            deck (game_of (action g s action_type)) = [w] \<and>
            started (game_of (action g s action_type)) = started g \<and>
            outcome_of (action g s action_type) = Returned (Redirect Game))"
proof -
  note acc = action_accepted [OF assms]
  have out: "outcome_of (action g s k) =
      Returned (Redirect (if deck (game_of (action g s k)) = [] then Index else Game))" for k
    using assms by (simp add: action_def Let_def)
  have later: "action g' s2 action_type2 = (g', s2, Returned (Redirect Index))"
    if "deck g' = []" for g'
    using that by (simp add: action_def)
  show ?thesis
  proof (cases "action_type = Some ''pass''")
    case True
    then show ?thesis
      by (simp add: out acc)
  next
    case False
    then have e: "deck (game_of (action g s action_type)) = []"
      by (simp add: acc)
    have "started (game_of (action g s action_type)) = started g"
      by (simp add: acc)
    moreover have "outcome_of (action g s action_type) = Returned (Redirect Index)"
      by (simp add: out e)
    moreover have "scores (game_of (action g s action_type)) =
              (if action_type = Some ''correct'' then
                 (scores g)(p_team (current_player g) \<mapsto>
                    get_score (scores g) (p_team (current_player g)) + 1)
               else if action_type = Some ''taboo'' then
                 (scores g)(p_team (current_player g) \<mapsto>
                    max 0 (get_score (scores g) (p_team (current_player g)) - 1))
               else scores g)"
      using False by (simp add: acc)
    ultimately show ?thesis
      using False e later [OF e] by simp
  qed
qed

theorem last_word_keeps_started_flag_witness:
  "deck one_card_left = [''river''] \<and>
   deck (game_of (action one_card_left alice (Some ''taboo''))) = [] \<and>
   started (game_of (action one_card_left alice (Some ''taboo''))) = started one_card_left \<and>
   outcome_of (action one_card_left alice (Some ''taboo'')) = Returned (Redirect Index) \<and>
   scores (game_of (action one_card_left alice (Some ''taboo''))) ''red'' = Some 0 \<and>
   action (game_of (action one_card_left alice (Some ''taboo''))) alice (Some ''correct'') =
     (game_of (action one_card_left alice (Some ''taboo'')), alice, Returned (Redirect Index)) \<and>
   deck (game_of (action one_card_left alice (Some ''pass''))) = [''river''] \<and>
   outcome_of (action one_card_left alice (Some ''pass'')) = Returned (Redirect Game)"
proof -
  have p: "players one_card_left \<noteq> []" and dk: "deck one_card_left = [''river'']"
    by (simp_all add: one_card_left_eq)
  have i: "player_id alice = Some (p_id (current_player one_card_left))"
    by (simp add: alice_eq current_player_one_card_left)
  have sc: "get_score (scores one_card_left) ''red'' = 1"
    by (simp add: one_card_left_eq get_score_def)
  from last_word_keeps_started_flag [OF p dk i, of "Some ''taboo''" alice "Some ''correct''"]
       last_word_keeps_started_flag [OF p dk i, of "Some ''pass''"]
  show ?thesis
    by (simp add: dk current_player_one_card_left sc)
qed

subsection \<open>C3: scores stay non-negative\<close>

text \<open>
  C3. In every state the handlers can reach, the scores of red and of blue are integers
  that are not negative. When the clue-giver posts "taboo" the score of the clue-giver's
  team becomes \<open>max 0 (score - 1)\<close>, when the clue-giver posts "correct" it grows by
  exactly 1, and in both cases no other score and not the pass counter changes; when the
  clue-giver posts "pass" all scores stay and the pass counter grows by exactly 1.
\<close>

theorem scores_never_negative:
  assumes "reachable g"
  shows "(\<exists>r b. scores g ''red'' = Some r \<and> 0 \<le> r \<and> scores g ''blue'' = Some b \<and> 0 \<le> b) \<and>
    (players g \<noteq> [] \<and> deck g \<noteq> [] \<and> player_id s = Some (p_id (current_player g)) \<longrightarrow>
      (action_type = Some ''taboo'' \<longrightarrow>
         get_score (scores (game_of (action g s action_type))) (p_team (current_player g)) =
           max 0 (get_score (scores g) (p_team (current_player g)) - 1) \<and>
         (\<forall>t. t \<noteq> p_team (current_player g) \<longrightarrow>
            scores (game_of (action g s action_type)) t = scores g t) \<and>
         passes (game_of (action g s action_type)) = passes g) \<and>
      (action_type = Some ''correct'' \<longrightarrow>
         get_score (scores (game_of (action g s action_type))) (p_team (current_player g)) =
           get_score (scores g) (p_team (current_player g)) + 1 \<and>
         (\<forall>t. t \<noteq> p_team (current_player g) \<longrightarrow>
            scores (game_of (action g s action_type)) t = scores g t) \<and>
         passes (game_of (action g s action_type)) = passes g) \<and>
      (action_type = Some ''pass'' \<longrightarrow>
         scores (game_of (action g s action_type)) = scores g \<and>
         passes (game_of (action g s action_type)) = passes g + 1))"
proof -
  from assms have "scores_ok g" by (rule reachable_scores_ok)
  then have inv: "\<exists>r b. scores g ''red'' = Some r \<and> 0 \<le> r \<and> scores g ''blue'' = Some b \<and> 0 \<le> b"
    by (auto simp: scores_ok_def)
  have step: "?thesis" if p: "players g \<noteq> []" and d: "deck g \<noteq> []"
    and i: "player_id s = Some (p_id (current_player g))"
  proof -
    from d obtain current rest where dk: "deck g = current # rest"
      by (cases "deck g") auto
    show ?thesis
      using inv by (simp add: action_accepted [OF p dk i] get_score_def)
  qed
  show ?thesis
  proof (cases "players g \<noteq> [] \<and> deck g \<noteq> [] \<and> player_id s = Some (p_id (current_player g))")
    case True
    then show ?thesis using step by blast
  next
    case False
    then show ?thesis using inv by blast
  qed
qed

text \<open>Alice's team has no point yet when she posts "taboo": the score stays 0.\<close>

theorem scores_never_negative_witness:
  "reachable round_started \<and>
   scores round_started ''red'' = Some 0 \<and> scores round_started ''blue'' = Some 0 \<and>
   get_score (scores (game_of (action round_started alice (Some ''taboo'')))) ''red'' = 0 \<and>
   scores (game_of (action round_started alice (Some ''taboo''))) ''blue'' = Some 0 \<and>
   passes (game_of (action round_started alice (Some ''taboo''))) = 0"
proof -
  have p: "players round_started \<noteq> [] \<and> deck round_started \<noteq> [] \<and>
           player_id alice = Some (p_id (current_player round_started))"
    by (simp add: alice_eq current_player_round_started) (simp add: round_started_eq)
  have v: "scores round_started ''red'' = Some 0" "scores round_started ''blue'' = Some 0"
    "passes round_started = 0"
    by (simp_all add: round_started_eq)
  from scores_never_negative [OF reachable_round_started, of alice "Some ''taboo''"] p
  show ?thesis
    by (simp add: reachable_round_started v current_player_round_started get_score_def)
qed

subsection \<open>C4: a caller who is not the clue-giver changes nothing\<close>

text \<open>
  C4. A call of \<^verbatim>\<open>action\<close> or of \<^verbatim>\<open>next_turn\<close> whose cookie does not carry the id of the
  active clue-giver, \<^verbatim>\<open>players[turn_index % len(players)]\<close>, leaves the whole dictionary as
  it was, and with it the scores, the deck, the pass counter and the turn index. With an
  empty roster there is no clue-giver and the call changes nothing either.
\<close>

theorem wrong_requester_changes_nothing:
  assumes "players g \<noteq> [] \<longrightarrow> player_id s \<noteq> Some (p_id (current_player g))"
  shows "game_of (action g s action_type) = g \<and> game_of (next_turn g s) = g"
  using assms action_rejected [of g s action_type] next_turn_rejected [of g s] by blast

text \<open>Bob, of the blue team, posts "correct" and asks for the next turn while Alice is the
  clue-giver.\<close>

theorem wrong_requester_changes_nothing_witness:
  "players round_started \<noteq> [] \<and>
   player_id bob \<noteq> Some (p_id (current_player round_started)) \<and>
   game_of (action round_started bob (Some ''correct'')) = round_started \<and>
   game_of (next_turn round_started bob) = round_started"
proof -
  have "player_id bob \<noteq> Some (p_id (current_player round_started))"
    by (simp add: bob_eq current_player_round_started)
  moreover have "players round_started \<noteq> []"
    by (simp add: round_started_eq)
  ultimately show ?thesis
    using wrong_requester_changes_nothing [of round_started bob "Some ''correct''"] by simp
qed

subsection \<open>C5: when a round may start\<close>

text \<open>
  C5, as stated, fails: \<^verbatim>\<open>start_game\<close> never reads \<^verbatim>\<open>started\<close>. Called in the middle of
  a round, with red at one point and one word left, it is not turned away: it deals a full
  deck again and sets the scores back to zero.
\<close>

theorem start_game_during_round_counterexample:
  "started one_card_left \<and>
   outcome_of (start_game one_card_left alice cards_json same_order (Some ''60'')) =
     Returned (Redirect Game) \<and>
   session_of (start_game one_card_left alice cards_json same_order (Some ''60'')) = alice \<and>
   deck one_card_left = [''river''] \<and>
   deck (game_of (start_game one_card_left alice cards_json same_order (Some ''60''))) =
     [''apple'', ''river''] \<and>
   scores one_card_left ''red'' = Some 1 \<and>
   scores (game_of (start_game one_card_left alice cards_json same_order (Some ''60''))) ''red'' =
     Some 0"
proof -
  have "started one_card_left" "deck one_card_left = [''river'']"
    "scores one_card_left ''red'' = Some 1"
    by (simp_all add: one_card_left_eq)
  then show ?thesis
    by (simp add: start_game_assigns [OF one_card_left_ready] py_int_60 load_cards_json
          same_order_def)
qed

text \<open>
  C5, amended. Whether or not a round is in progress, \<^verbatim>\<open>start_game\<close> is turned away, to
  the index page and with the dictionary unchanged, with the message about too few players
  exactly when the roster has fewer than 2 players; with the message about the teams exactly
  when the roster has 2 players or more and red or blue is missing among them; with the
  message about the cards exactly when both roster checks pass and no valid card is loaded.
  When all three checks pass and the time limit is absent or a valid integer literal, it
  starts a round, also over a round in progress: the shuffled words of the loaded cards
  become the deck, scores, pass counter and turn index are zero, and \<^verbatim>\<open>started\<close> is set.
\<close>

theorem start_game_ignores_started:
  "((length (players g) < 2) =
      (outcome_of (start_game g s raw shuffle form_time_limit) = Returned (Redirect Index) \<and>
       error (session_of (start_game g s raw shuffle form_time_limit)) =
         Some ''Add at least two players to start.'')) \<and>
   ((2 \<le> length (players g) \<and> \<not> {''red'', ''blue''} \<subseteq> set (map p_team (players g))) =
      (outcome_of (start_game g s raw shuffle form_time_limit) = Returned (Redirect Index) \<and>
       error (session_of (start_game g s raw shuffle form_time_limit)) =
         Some ''Add at least one player to each team.'')) \<and>
   ((2 \<le> length (players g) \<and> {''red'', ''blue''} \<subseteq> set (map p_team (players g)) \<and>
     load_cards raw = []) =
      (outcome_of (start_game g s raw shuffle form_time_limit) = Returned (Redirect Index) \<and>
       error (session_of (start_game g s raw shuffle form_time_limit)) =
         Some ''No cards available in cards.json.'')) \<and>
   (outcome_of (start_game g s raw shuffle form_time_limit) = Returned (Redirect Index) \<longrightarrow>
      game_of (start_game g s raw shuffle form_time_limit) = g) \<and>
   (2 \<le> length (players g) \<and> {''red'', ''blue''} \<subseteq> set (map p_team (players g)) \<and>
    load_cards raw \<noteq> [] \<and>
    (case form_time_limit of None \<Rightarrow> Some DEFAULT_TIME_LIMIT | Some v \<Rightarrow> py_int v) = Some n \<longrightarrow>
      start_game g s raw shuffle form_time_limit =
        (g\<lparr>deck := shuffle (map word (load_cards raw)), cards := load_cards raw,
           scores := [''red'' \<mapsto> 0, ''blue'' \<mapsto> 0], passes := 0, turn_index := 0,
           time_limit := n, started := True\<rparr>,
         s, Returned (Redirect Game)))"
proof -
  consider (few) "length (players g) < 2"
    | (team) "\<not> length (players g) < 2" "\<not> {''red'', ''blue''} \<subseteq> set (map p_team (players g))"
    | (cards) "\<not> length (players g) < 2" "{''red'', ''blue''} \<subseteq> set (map p_team (players g))"
        "load_cards raw = []"
    | (go) "\<not> length (players g) < 2" "{''red'', ''blue''} \<subseteq> set (map p_team (players g))"
        "load_cards raw \<noteq> []"
    by blast
  then show ?thesis
  proof cases
    case few
    then show ?thesis
      by (simp add: start_game_too_few)
  next
    case team
    note eq = start_game_team_missing [OF team, of s raw shuffle form_time_limit]
    from team show ?thesis
      unfolding eq by auto
  next
    case cards
    note eq = start_game_no_cards [OF cards, of s shuffle form_time_limit]
    from cards show ?thesis
      unfolding eq by auto
  next
    case go
    note eq = start_game_assigns [OF go, of s shuffle form_time_limit]
    from go show ?thesis
      unfolding eq by (auto split: option.splits)
  qed
qed

text \<open>Bob starts a second round in the middle of the first; and nobody has joined yet.\<close>

theorem start_game_ignores_started_witness:
  "started one_card_left \<and>
   start_game one_card_left bob cards_json same_order (Some ''90'') =
     (one_card_left\<lparr>deck := [''apple'', ''river''],
        cards := [\<lparr>word = ''apple'', taboo = [''fruit'', ''tree'']\<rparr>,
                  \<lparr>word = ''river'', taboo = [''water'', ''bank'']\<rparr>],
        scores := [''red'' \<mapsto> 0, ''blue'' \<mapsto> 0], passes := 0, turn_index := 0,
        time_limit := 90, started := True\<rparr>,
      bob, Returned (Redirect Game)) \<and>
   length (players GAME) < 2 \<and>
   outcome_of (start_game GAME no_cookie cards_json same_order (Some ''90'')) =
     Returned (Redirect Index) \<and>
   error (session_of (start_game GAME no_cookie cards_json same_order (Some ''90''))) =
     Some ''Add at least two players to start.'' \<and>
   game_of (start_game GAME no_cookie cards_json same_order (Some ''90'')) = GAME"
proof -
  have st: "started one_card_left"
    by (simp add: one_card_left_eq)
  have few: "length (players GAME) < 2"
    by (simp add: GAME_def)
  from start_game_ignores_started
         [of one_card_left bob cards_json same_order "Some ''90''" 90]
       start_game_ignores_started [of GAME no_cookie cards_json same_order "Some ''90''" 90]
  show ?thesis
    using one_card_left_ready
    by (simp add: st few py_int_90 load_cards_json same_order_def)
qed

subsection \<open>C6: a failing call and the state it leaves\<close>

text \<open>
  C6. A call that fails is to leave the dictionary untouched. The calls turned away by a
  check do (\<open>join_rejected\<close>, \<open>start_game_rejected\<close>, \<open>action_rejected\<close>,
  \<open>next_turn_rejected\<close>, \<open>game_reads_only\<close>). A call of \<^verbatim>\<open>start_game\<close> with the time
  limit "1.5" does not: the deck and the cards are assigned before \<^verbatim>\<open>int\<close> raises, and
  \<^verbatim>\<open>started\<close> is never set.
\<close>

theorem bad_time_limit_half_starts_round:
  "started lobby = False \<and> deck lobby = [] \<and> cards lobby = [] \<and>
   outcome_of (start_game lobby alice cards_json same_order (Some ''1.5'')) = Raised ValueError \<and>
   deck (game_of (start_game lobby alice cards_json same_order (Some ''1.5''))) =
     [''apple'', ''river''] \<and>
   cards (game_of (start_game lobby alice cards_json same_order (Some ''1.5''))) =
     [\<lparr>word = ''apple'', taboo = [''fruit'', ''tree'']\<rparr>,
      \<lparr>word = ''river'', taboo = [''water'', ''bank'']\<rparr>] \<and>
   started (game_of (start_game lobby alice cards_json same_order (Some ''1.5''))) = False \<and>
   game_of (start_game lobby alice cards_json same_order (Some ''1.5'')) \<noteq> lobby"
proof -
  have l: "started lobby = False" "deck lobby = []" "cards lobby = []"
    by (simp_all add: lobby_eq)
  have c: "load_cards cards_json \<noteq> []"
    by (simp add: load_cards_json)
  have *: "deck (game_of (start_game lobby alice cards_json same_order (Some ''1.5''))) =
     [''apple'', ''river'']"
    by (simp add: start_game_assigns [OF lobby_ready c] py_int_1_5 load_cards_json
          same_order_def)
  then have "game_of (start_game lobby alice cards_json same_order (Some ''1.5'')) \<noteq> lobby"
    using l(2) by auto
  with * show ?thesis
    by (simp add: l start_game_assigns [OF lobby_ready c] py_int_1_5 load_cards_json)
qed

subsection \<open>C7: a pass moves the front word to the back\<close>

text \<open>
  C7. When the clue-giver posts "pass" on a deck that is not empty, the deck keeps its
  length, the word that was first is now last, every other word has moved one position
  forward, and the pass counter has grown by exactly 1. When the clue-giver posts "correct"
  or "taboo" instead, the front word is dropped and the deck is one word shorter.
\<close>

theorem pass_recycles_front_word:
  assumes "players g \<noteq> []" and "deck g \<noteq> []"
    and "player_id s = Some (p_id (current_player g))"
  shows "deck (game_of (action g s (Some ''pass''))) = tl (deck g) @ [hd (deck g)] \<and>
         length (deck (game_of (action g s (Some ''pass'')))) = length (deck g) \<and>
         last (deck (game_of (action g s (Some ''pass'')))) = hd (deck g) \<and>
         (\<forall>i. Suc i < length (deck g) \<longrightarrow>
            deck (game_of (action g s (Some ''pass''))) ! i = deck g ! Suc i) \<and>
         passes (game_of (action g s (Some ''pass''))) = passes g + 1 \<and>
         (action_type = Some ''correct'' \<or> action_type = Some ''taboo'' \<longrightarrow>
            deck (game_of (action g s action_type)) = tl (deck g) \<and>
            Suc (length (deck (game_of (action g s action_type)))) = length (deck g))"
proof -
  from assms(2) obtain current rest where d: "deck g = current # rest"
    by (cases "deck g") auto
  note acc = action_accepted [OF assms(1) d assms(3)]
  have "deck (game_of (action g s (Some ''pass''))) = rest @ [current]"
    and "passes (game_of (action g s (Some ''pass''))) = passes g + 1"
    by (simp_all add: acc)
  moreover have "action_type = Some ''correct'' \<or> action_type = Some ''taboo'' \<longrightarrow>
      deck (game_of (action g s action_type)) = rest"
    by (auto simp: acc)
  ultimately show ?thesis
    by (auto simp: d nth_append)
qed

theorem pass_recycles_front_word_witness:
  "deck round_started = [''apple'', ''river''] \<and>
   deck (game_of (action round_started alice (Some ''pass''))) = [''river'', ''apple''] \<and>
   passes (game_of (action round_started alice (Some ''pass''))) = passes round_started + 1 \<and>
   deck (game_of (action round_started alice (Some ''taboo''))) = [''river'']"
proof -
  have p: "players round_started \<noteq> []" and d: "deck round_started \<noteq> []"
    by (simp_all add: round_started_eq)
  have i: "player_id alice = Some (p_id (current_player round_started))"
    by (simp add: alice_eq current_player_round_started)
  have dk: "deck round_started = [''apple'', ''river'']"
    by (simp add: round_started_eq)
  from pass_recycles_front_word [OF p d i, of "Some ''taboo''"] show ?thesis
    by (simp add: dk)
qed

subsection \<open>C8: a time limit that is not a number\<close>

text \<open>
  C8. A time limit that is not an integer literal is to be turned away with a message.
  With the time limit "abc", \<^verbatim>\<open>start_game\<close> ends in an unhandled \<^verbatim>\<open>ValueError\<close>, and no
  message is stored in the cookie.
\<close>

theorem bad_time_limit_raises:
  "outcome_of (start_game lobby alice cards_json same_order (Some ''abc'')) = Raised ValueError \<and>
   error (session_of (start_game lobby alice cards_json same_order (Some ''abc''))) = None"
proof -
  have c: "load_cards cards_json \<noteq> []"
    by (simp add: load_cards_json)
  show ?thesis
    by (simp add: start_game_assigns [OF lobby_ready c] py_int_abc alice_eq)
qed

subsection \<open>C10: an action that is none of the three still consumes a word\<close>

text \<open>
  C10. When the clue-giver posts an action that is neither "correct" nor "taboo" nor "pass"
  (or no action field at all) on a deck that is not empty, the front word is dropped all the
  same: the deck is one word shorter, and the scores and the pass counter are as before.
\<close>

theorem unknown_action_discards_front_word:
  assumes "players g \<noteq> []" and "deck g \<noteq> []"
    and "player_id s = Some (p_id (current_player g))"
    and "action_type \<notin> {Some ''correct'', Some ''taboo'', Some ''pass''}"
  shows "deck (game_of (action g s action_type)) = tl (deck g) \<and>
         Suc (length (deck (game_of (action g s action_type)))) = length (deck g) \<and>
         scores (game_of (action g s action_type)) = scores g \<and>
         passes (game_of (action g s action_type)) = passes g"
proof -
  from assms(2) obtain current rest where d: "deck g = current # rest"
    by (cases "deck g") auto
  from assms(4) show ?thesis
    by (simp add: action_accepted [OF assms(1) d assms(3)] d)
qed

theorem unknown_action_discards_front_word_witness:
  "Some ''skip'' \<notin> {Some ''correct'', Some ''taboo'', Some ''pass''} \<and>
   deck round_started = [''apple'', ''river''] \<and>
   deck (game_of (action round_started alice (Some ''skip''))) = [''river''] \<and>
   scores (game_of (action round_started alice (Some ''skip''))) = scores round_started \<and>
   passes (game_of (action round_started alice (Some ''skip''))) = passes round_started"
proof -
  have p: "players round_started \<noteq> []" and d: "deck round_started \<noteq> []"
    by (simp_all add: round_started_eq)
  have i: "player_id alice = Some (p_id (current_player round_started))"
    by (simp add: alice_eq current_player_round_started)
  have k: "Some ''skip'' \<notin> {Some ''correct'', Some ''taboo'', Some ''pass''}"
    by simp
  have dk: "deck round_started = [''apple'', ''river'']"
    by (simp add: round_started_eq)
  from unknown_action_discards_front_word [OF p d i k] show ?thesis
    by (simp add: dk)
qed

end
